theory Spec2Isabelle
  imports Main
begin

section \<open>Python strings and exceptions\<close>

text \<open>
  A Python \<open>bytes\<close> value is the list of its bytes, and a Python \<open>str\<close> value is
  represented by its UTF-8 encoding; both are of type \<open>string\<close>. Encoding a \<open>str\<close>
  as UTF-8 is then the identity, and decoding \<open>bytes\<close> as UTF-8 succeeds, with the same
  list, exactly on the well-formed UTF-8 sequences. The source encodes a command with
  the file-system encoding and decodes the result with the default codec; both are UTF-8
  on the interpreters that accept the source's f-strings, so that round trip of the
  program's own text is the identity and is left out of the model. The bytes that the
  native subsystem writes (the return buffer and the error description) are arbitrary, and
  decoding them can fail.
\<close>

text \<open>
  \<open>UnicodeDecodeError\<close> carries the bytes that could not be decoded (the attribute
  \<open>object\<close> of the exception).
\<close>

datatype py_error =
    PlaysoundException string
  | NotImplementedError string
  | IOError string
  | TypeError string
  | AttributeError string
  | UnicodeDecodeError string

text \<open>\<open>prefix_of p s\<close> is Python's \<open>s.startswith(p)\<close>.\<close>

fun prefix_of :: "string \<Rightarrow> string \<Rightarrow> bool" where
  "prefix_of [] s = True"
| "prefix_of (c # p) [] = False"
| "prefix_of (c # p) (d # s) = (c = d \<and> prefix_of p s)"

text \<open>\<open>str_contains sub s\<close> is Python's \<open>sub in s\<close>.\<close>

fun str_contains :: "string \<Rightarrow> string \<Rightarrow> bool" where
  "str_contains sub [] = (sub = [])"
| "str_contains sub (d # s) = (prefix_of sub (d # s) \<or> str_contains sub s)"

text \<open>\<open>str_join sep xs\<close> is Python's \<open>sep.join(xs)\<close>.\<close>

fun str_join :: "string \<Rightarrow> string list \<Rightarrow> string" where
  "str_join sep [] = []"
| "str_join sep [x] = x"
| "str_join sep (x # y # xs) = x @ sep @ str_join sep (y # xs)"

text \<open>\<open>str_int i\<close> is Python's \<open>str(i)\<close> for an integer: decimal, with a leading minus sign.\<close>

fun nat_digits :: "nat \<Rightarrow> string" where
  "nat_digits n =
     (if n < 10 then [''0123456789'' ! n]
      else nat_digits (n div 10) @ [''0123456789'' ! (n mod 10)])"

declare nat_digits.simps [simp del]

definition str_int :: "int \<Rightarrow> string" where
  "str_int i = (if i < 0 then CHR ''-'' # nat_digits (nat (- i)) else nat_digits (nat i))"

text \<open>
  Well-formed UTF-8, as the strict decoder accepts it: \<open>utf8_lead c cs\<close> is the number
  of continuation bytes of the sequence that starts with the byte \<open>c\<close> and goes on in
  \<open>cs\<close>, or \<open>None\<close> when no well-formed sequence starts there (a stray continuation
  byte, an overlong form, a surrogate, a value above \<open>0x10FFFF\<close>, a truncated sequence).
\<close>

definition in_range :: "char \<Rightarrow> nat \<Rightarrow> nat \<Rightarrow> bool" where
  "in_range c lo hi = (lo \<le> of_char c \<and> of_char c \<le> hi)"

definition utf8_lead :: "char \<Rightarrow> string \<Rightarrow> nat option" where
  "utf8_lead c cs =
     (let b = of_char c :: nat in
      if b < 0x80 then Some 0
      else if 0xC2 \<le> b \<and> b \<le> 0xDF then
        (case cs of
           c1 # r \<Rightarrow> if in_range c1 0x80 0xBF then Some 1 else None
         | [] \<Rightarrow> None)
      else if 0xE0 \<le> b \<and> b \<le> 0xEF then
        (case cs of
           c1 # c2 # r \<Rightarrow>
             if in_range c1 (if b = 0xE0 then 0xA0 else 0x80) (if b = 0xED then 0x9F else 0xBF)
                \<and> in_range c2 0x80 0xBF
             then Some 2 else None
         | _ \<Rightarrow> None)
      else if 0xF0 \<le> b \<and> b \<le> 0xF4 then
        (case cs of
           c1 # c2 # c3 # r \<Rightarrow>
             if in_range c1 (if b = 0xF0 then 0x90 else 0x80) (if b = 0xF4 then 0x8F else 0xBF)
                \<and> in_range c2 0x80 0xBF \<and> in_range c3 0x80 0xBF
             then Some 3 else None
         | _ \<Rightarrow> None)
      else None)"

fun valid_utf8 :: "string \<Rightarrow> bool" where
  "valid_utf8 [] = True"
| "valid_utf8 (c # cs) =
     (case utf8_lead c cs of None \<Rightarrow> False | Some n \<Rightarrow> valid_utf8 (drop n cs))"

text \<open>\<open>decode b\<close> is Python's \<open>b.decode()\<close> and \<open>b.decode("utf-8")\<close>.\<close>

definition decode :: "string \<Rightarrow> py_error + string" where
  "decode b = (if valid_utf8 b then Inr b else Inl (UnicodeDecodeError b))"

section \<open>The Command-Interface backend: class playsoundWin\<close>

text \<open>
  The native multimedia control interface is an external collaborator. It is a parameter
  of the model: \<open>mciSendStringA\<close> answers a command with an error code and the contents
  of the return buffer, and may depend on every command submitted before (the most general
  deterministic subsystem, which covers any test stub); \<open>mciGetErrorStringA\<close> gives the
  bytes of the native description of an error code.
\<close>

record mci_env =
  mciSendStringA :: "string list \<Rightarrow> string \<Rightarrow> int \<times> string"
  mciGetErrorStringA :: "int \<Rightarrow> string"

text \<open>
  The observable effects: the commands submitted so far, in order, and the number of
  \<open>sleep(0.1)\<close> calls made so far.
\<close>

record mci_world =
  sent :: "string list"
  sleeps :: nat

text \<open>
  The attributes of an instance; \<open>alias_attr\<close> is the attribute \<open>alias\<close>.
  \<open>pause_audio_attr\<close> is the entry \<open>pause_audio\<close> of the
  instance dictionary: \<open>None\<close> while the instance has no such attribute (a lookup then
  finds the method of the class), \<open>Some b\<close> once the attribute is bound to the boolean \<open>b\<close>.
\<close>

record win_self =
  alias_attr :: string
  stop_sound :: bool
  pause_sound :: bool
  pause_audio_attr :: "bool option"

definition mcierr_duplicate_alias :: string where
  "mcierr_duplicate_alias = ''Error 289 for command''"

text \<open>\<open>__init__\<close>; the argument is \<open>id(self)\<close>.\<close>

definition playsoundWin_init :: "int \<Rightarrow> win_self" where
  "playsoundWin_init ident =
     \<lparr>alias_attr = ''playsound_alias_'' @ str_int ident,
      stop_sound = False, pause_sound = False, pause_audio_attr = None\<rparr>"

text \<open>
  The message of the exception that \<open>winCommand\<close> raises, from the error code, the
  command and the decoded description.
\<close>

definition exceptionMessage :: "int \<Rightarrow> string \<Rightarrow> string \<Rightarrow> string" where
  "exceptionMessage errorCode command description =
     ''\<newline>    Error '' @ str_int errorCode @ '' for command:\<newline>''
       @ command @ ''\<newline>    '' @ description"

text \<open>
  \<open>winCommand\<close>. On a non-zero error code the description is fetched and decoded while
  the message is built; when it does not decode, the \<open>UnicodeDecodeError\<close> is what
  leaves the method. On success the method returns the bytes of the buffer.
\<close>

definition winCommand ::
  "mci_env \<Rightarrow> mci_world \<Rightarrow> string list \<Rightarrow> (py_error + string) \<times> mci_world" where
  "winCommand env w command =
     (let cmd = str_join '' '' command;
          (errorCode, buf) = mciSendStringA env (sent w) cmd;
          w' = w\<lparr>sent := sent w @ [cmd]\<rparr>
      in if errorCode \<noteq> 0
         then (case decode (mciGetErrorStringA env errorCode) of
                 Inl e \<Rightarrow> (Inl e, w')
               | Inr description \<Rightarrow>
                   (Inl (PlaysoundException (exceptionMessage errorCode cmd description)), w'))
         else (Inr buf, w'))"

text \<open>\<open>close_alias\<close>: the bare \<open>except\<close> swallows every error.\<close>

definition close_alias :: "mci_env \<Rightarrow> mci_world \<Rightarrow> win_self \<Rightarrow> mci_world" where
  "close_alias env w self = snd (winCommand env w [''close'', alias_attr self])"

definition stop_audio :: "mci_env \<Rightarrow> mci_world \<Rightarrow> win_self \<Rightarrow> (py_error + unit) \<times> mci_world" where
  "stop_audio env w self =
     (case winCommand env w [''stop'', alias_attr self] of
        (Inl e, w') \<Rightarrow> (Inl e, w')
      | (Inr _, w') \<Rightarrow> (Inr (), w'))"

text \<open>The method \<open>pause_audio\<close> of the class.\<close>

definition pause_audio :: "mci_env \<Rightarrow> mci_world \<Rightarrow> win_self \<Rightarrow> (py_error + unit) \<times> mci_world" where
  "pause_audio env w self =
     (case winCommand env w [''pause'', alias_attr self] of
        (Inl e, w') \<Rightarrow> (Inl e, w')
      | (Inr _, w') \<Rightarrow> (Inr (), w'))"

definition resume_audio :: "mci_env \<Rightarrow> mci_world \<Rightarrow> win_self \<Rightarrow> (py_error + unit) \<times> mci_world" where
  "resume_audio env w self =
     (case winCommand env w [''resume'', alias_attr self] of
        (Inl e, w') \<Rightarrow> (Inl e, w')
      | (Inr _, w') \<Rightarrow> (Inr (), w'))"

definition get_status :: "mci_env \<Rightarrow> mci_world \<Rightarrow> win_self \<Rightarrow> (py_error + string) \<times> mci_world" where
  "get_status env w self =
     (case winCommand env w [''status'', alias_attr self, ''mode''] of
        (Inl e, w') \<Rightarrow> (Inl e, w')
      | (Inr buf, w') \<Rightarrow> (decode buf, w'))"

text \<open>
  The \<open>while True\<close> loop of \<open>_manage_block\<close>: sleep, query the status, leave when it
  reads \<open>stopped\<close>. It may run forever; not returning is the value \<open>None\<close>.
\<close>

partial_function (option) manage_block_loop ::
  "mci_env \<Rightarrow> mci_world \<Rightarrow> win_self \<Rightarrow> ((py_error + unit) \<times> mci_world \<times> win_self) option" where
  "manage_block_loop env w self =
     (case get_status env (w\<lparr>sleeps := Suc (sleeps w)\<rparr>) self of
        (Inl e, w') \<Rightarrow> Some (Inl e, w', self)
      | (Inr status, w') \<Rightarrow>
          if status = ''stopped'' then Some (Inr (), w', self)
          else manage_block_loop env w' self)"

text \<open>\<open>_manage_block\<close>: both assignments, then the loop (the clock read is unused).\<close>

definition manage_block ::
  "mci_env \<Rightarrow> mci_world \<Rightarrow> win_self \<Rightarrow> ((py_error + unit) \<times> mci_world \<times> win_self) option" where
  "manage_block env w self =
     manage_block_loop env w (self\<lparr>stop_sound := False, pause_audio_attr := Some False\<rparr>)"

text \<open>
  \<open>play(sound, block, alias)\<close>. The argument \<open>alias\<close> is \<open>None\<close> or a string, and is
  used when it is truthy (a non-empty string).
\<close>

definition playsoundWin_play ::
  "mci_env \<Rightarrow> mci_world \<Rightarrow> win_self \<Rightarrow> string \<Rightarrow> bool \<Rightarrow> string option
     \<Rightarrow> ((py_error + unit) \<times> mci_world \<times> win_self) option" where
  "playsoundWin_play env w self sound block alias_arg =
     (let self1 = (case alias_arg of
                     None \<Rightarrow> self
                   | Some a \<Rightarrow> if a \<noteq> [] then self\<lparr>alias_attr := a\<rparr> else self);
          w1 = close_alias env w self1;
          (r2, w2) = winCommand env w1 [''open '' @ [CHR 0x22] @ sound @ [CHR 0x22] @ '' alias'', alias_attr self1];
          reraised = (case r2 of
                        Inl (PlaysoundException m) \<Rightarrow>
                          if \<not> str_contains mcierr_duplicate_alias m
                          then Some (PlaysoundException m) else None
                      | Inl e \<Rightarrow> Some e
                      | Inr _ \<Rightarrow> None)
      in case reraised of
           Some e \<Rightarrow> Some (Inl e, w2, self1)
         | None \<Rightarrow>
             (case winCommand env w2 [''play'', alias_attr self1] of
                (Inl e, w3) \<Rightarrow> Some (Inl e, w3, self1)
              | (Inr _, w3) \<Rightarrow>
                  if block then manage_block env w3 self1 else Some (Inr (), w3, self1)))"

definition playsoundWin_stop ::
  "mci_env \<Rightarrow> mci_world \<Rightarrow> win_self \<Rightarrow> (py_error + unit) \<times> mci_world \<times> win_self" where
  "playsoundWin_stop env w self =
     (let self1 = self\<lparr>stop_sound := True\<rparr>
      in case stop_audio env w self1 of (r, w') \<Rightarrow> (r, w', self1))"

text \<open>
  \<open>pause\<close>: the call \<open>self.pause_audio()\<close> looks the attribute up on the instance
  first; a boolean found there is not callable.
\<close>

definition playsoundWin_pause ::
  "mci_env \<Rightarrow> mci_world \<Rightarrow> win_self \<Rightarrow> (py_error + unit) \<times> mci_world \<times> win_self" where
  "playsoundWin_pause env w self =
     (let self1 = self\<lparr>pause_sound := True\<rparr>
      in case pause_audio_attr self1 of
           Some b \<Rightarrow> (Inl (TypeError ([CHR 0x27] @ ''bool'' @ [CHR 0x27] @ '' object is not callable'')), w, self1)
         | None \<Rightarrow> (case pause_audio env w self1 of (r, w') \<Rightarrow> (r, w', self1)))"

definition playsoundWin_resume ::
  "mci_env \<Rightarrow> mci_world \<Rightarrow> win_self \<Rightarrow> bool
     \<Rightarrow> ((py_error + unit) \<times> mci_world \<times> win_self) option" where
  "playsoundWin_resume env w self block =
     (let self1 = self\<lparr>pause_sound := False\<rparr>
      in case get_status env w self1 of
           (Inl e, w1) \<Rightarrow> Some (Inl e, w1, self1)
         | (Inr status, w1) \<Rightarrow>
             if status = ''paused'' then
               (case resume_audio env w1 self1 of
                  (Inl e, w2) \<Rightarrow> Some (Inl e, w2, self1)
                | (Inr _, w2) \<Rightarrow>
                    if block then manage_block env w2 self1 else Some (Inr (), w2, self1))
             else Some (Inr (), w1, self1))"

section \<open>The Native-Object backend: class playsoundOSX\<close>

text \<open>
  The native sound-object API is a parameter: \<open>getcwd\<close> is the current working
  directory, and \<open>initWithContentsOfURL\<close> tells whether the constructor, given the URL
  built from a string, yields a sound object (\<open>False\<close>: it yields nil). A URL object and
  the sound object built from it are represented by that string. The world is the list of
  native calls made so far; \<open>Sleep_duration u\<close> is \<open>sleep(self.nssound.duration())\<close> for
  the sound object of \<open>u\<close>.
\<close>

record osx_env =
  getcwd :: string
  initWithContentsOfURL :: "string \<Rightarrow> bool"

datatype osx_event =
    URLWithString string
  | InitWithContentsOfURL string
  | NSSound_play string
  | NSSound_stop string
  | Sleep_duration string

record osx_self =
  nssound :: "string option"
  osx_stop_sound :: bool
  osx_pause_sound :: bool
  is_playing :: bool

definition playsoundOSX_init :: osx_self where
  "playsoundOSX_init =
     \<lparr>nssound = None, osx_stop_sound = False, osx_pause_sound = False, is_playing = False\<rparr>"

definition playsoundOSX_play ::
  "osx_env \<Rightarrow> osx_event list \<Rightarrow> osx_self \<Rightarrow> string \<Rightarrow> bool
     \<Rightarrow> (py_error + unit) \<times> osx_event list \<times> osx_self" where
  "playsoundOSX_play env w self sound block =
     (let sound1 =
            (if \<not> str_contains ''://'' sound
             then ''file://'' @ (if \<not> prefix_of ''/'' sound then getcwd env @ ''/'' @ sound
                                 else sound)
             else sound);
          w1 = w @ [URLWithString sound1, InitWithContentsOfURL sound1];
          self1 = self\<lparr>nssound := (if initWithContentsOfURL env sound1 then Some sound1 else None)\<rparr>
      in case nssound self1 of
           None \<Rightarrow> (Inl (IOError (''Unable to load sound named: '' @ sound1)), w1, self1)
         | Some u \<Rightarrow>
             (let self2 = self1\<lparr>is_playing := True\<rparr>;
                  w2 = w1 @ [NSSound_play u]
              in if block then (Inr (), w2 @ [Sleep_duration u], self2)
                 else (Inr (), w2, self2)))"

definition playsoundOSX_stop ::
  "osx_event list \<Rightarrow> osx_self \<Rightarrow> (py_error + unit) \<times> osx_event list \<times> osx_self" where
  "playsoundOSX_stop w self =
     (let self1 = self\<lparr>osx_stop_sound := True\<rparr>
      in case nssound self1 of
           Some u \<Rightarrow> if is_playing self1 then (Inr (), w @ [NSSound_stop u], self1)
                     else (Inr (), w, self1)
         | None \<Rightarrow> (Inr (), w, self1))"

section \<open>The Pipeline backend: class playsoundNix\<close>

text \<open>
  The streaming-media library is a parameter: whether the element factory yields an
  element, the result of a state-change request, its \<open>repr\<close>, whether an end-of-stream
  message ever arrives on the bus, and the two path functions. The world is the list of
  native calls made so far. \<open>bus.poll\<close> has no timeout: when no end-of-stream message
  arrives, \<open>play\<close> does not return, which is the value \<open>None\<close>.
\<close>

datatype StateChangeReturn = FAILURE | SUCCESS | ASYNC | NO_PREROLL

datatype gst_state = PLAYING | NULL

datatype gst_event =
    Gst_init
  | ElementFactory_make string string
  | Set_uri string
  | Set_state gst_state
  | Get_bus
  | Bus_poll

record gst_env =
  element_made :: bool
  abspath :: "string \<Rightarrow> string"
  pathname2url :: "string \<Rightarrow> string"
  set_state_result :: "gst_state \<Rightarrow> StateChangeReturn"
  repr_result :: "StateChangeReturn \<Rightarrow> string"
  eos_arrives :: bool

definition playsoundNix_play ::
  "gst_env \<Rightarrow> gst_event list \<Rightarrow> string \<Rightarrow> bool
     \<Rightarrow> ((py_error + unit) \<times> gst_event list) option" where
  "playsoundNix_play env w sound block =
     (if \<not> block
      then Some (Inl (NotImplementedError ''block=False cannot be used on this platform yet''), w)
      else
        (let w1 = w @ [Gst_init, ElementFactory_make ''playbin'' ''playbin'']
         in if \<not> element_made env
            then Some (Inl (AttributeError
                   ([CHR 0x27] @ ''NoneType'' @ [CHR 0x27] @ '' object has no attribute ''
                      @ [CHR 0x27] @ ''props'' @ [CHR 0x27])), w1)
            else
              (let uri = (if prefix_of ''http://'' sound \<or> prefix_of ''https://'' sound
                          then sound
                          else ''file://'' @ pathname2url env (abspath env sound));
                   w2 = w1 @ [Set_uri uri, Set_state PLAYING];
                   set_result = set_state_result env PLAYING
               in if set_result \<noteq> ASYNC
                  then Some (Inl (PlaysoundException
                         (''playbin.set_state returned '' @ repr_result env set_result)), w2)
                  else if eos_arrives env
                    then Some (Inr (), w2 @ [Get_bus, Bus_poll, Set_state NULL])
                    else None)))"

text \<open>
  \<open>stop\<close> executes \<open>raise NotImplemented\<close>. \<open>NotImplemented\<close> is a constant, not an
  exception class, so the statement itself raises a \<open>TypeError\<close>.
\<close>

definition playsoundNix_stop :: "gst_event list \<Rightarrow> (py_error + unit) \<times> gst_event list" where
  "playsoundNix_stop w = (Inl (TypeError ''exceptions must derive from BaseException''), w)"

section \<open>The classes and the backend selector\<close>

datatype py_class = playsoundBase | playsoundWin | playsoundOSX | playsoundNix

fun class_name :: "py_class \<Rightarrow> string" where
  "class_name playsoundBase = ''playsoundBase''"
| "class_name playsoundWin = ''playsoundWin''"
| "class_name playsoundOSX = ''playsoundOSX''"
| "class_name playsoundNix = ''playsoundNix''"

text \<open>The base classes that declare methods (\<open>ABC\<close> itself declares none).\<close>

fun bases :: "py_class \<Rightarrow> py_class list" where
  "bases playsoundBase = []"
| "bases c = [playsoundBase]"

text \<open>
  The methods each class body defines, in source order, each with whether it is
  decorated with \<open>@abstractmethod\<close>.
\<close>

fun class_body :: "py_class \<Rightarrow> (string \<times> bool) list" where
  "class_body playsoundBase =
     [(''__init__'', False), (''play'', True), (''stop'', True), (''pause'', True),
      (''resume'', True)]"
| "class_body playsoundWin =
     [(''__init__'', False), (''close_alias'', False), (''stop_audio'', False),
      (''pause_audio'', False), (''resume_audio'', False), (''get_duration_of_audio'', False),
      (''get_status'', False), (''winCommand'', False), (''_manage_block'', False),
      (''play'', False), (''stop'', False), (''pause'', False), (''resume'', False)]"
| "class_body playsoundOSX =
     [(''__init__'', False), (''play'', False), (''stop'', False), (''resume'', False),
      (''pause'', False)]"
| "class_body playsoundNix = [(''play'', False), (''stop'', False)]"

definition declared_abstract :: "py_class \<Rightarrow> string list" where
  "declared_abstract c = map fst (filter snd (class_body c))"

text \<open>
  \<open>__abstractmethods__\<close> as the metaclass of \<open>ABC\<close> computes it at class creation: the
  names the body declares abstract, and the abstract names of the bases that the body
  does not define. (No base here has a base with abstract methods.)
\<close>

definition abstractmethods :: "py_class \<Rightarrow> string list" where
  "abstractmethods c =
     declared_abstract c @
     filter (\<lambda>n. n \<notin> set (map fst (class_body c))) (concat (map declared_abstract (bases c)))"

text \<open>The order of strings (by code point, a proper prefix first) and sorting by it.\<close>

fun str_le :: "string \<Rightarrow> string \<Rightarrow> bool" where
  "str_le [] t = True"
| "str_le (c # s) [] = False"
| "str_le (c # s) (d # t) =
     ((of_char c :: nat) < of_char d \<or> (c = d \<and> str_le s t))"

fun insert_sorted :: "string \<Rightarrow> string list \<Rightarrow> string list" where
  "insert_sorted x [] = [x]"
| "insert_sorted x (y # ys) = (if str_le x y then x # y # ys else y # insert_sorted x ys)"

definition sorted_names :: "string list \<Rightarrow> string list" where
  "sorted_names xs = foldr insert_sorted xs []"

text \<open>
  Calling a class: object creation refuses a class whose \<open>__abstractmethods__\<close> is not
  empty with a \<open>TypeError\<close> that lists the names in sorted order, before \<open>__init__\<close>
  runs. The wording is that of the interpreters up to version 3.11; later ones word the
  same error differently.
\<close>

definition instantiate :: "py_class \<Rightarrow> py_error + unit" where
  "instantiate c =
     (if abstractmethods c \<noteq> []
      then Inl (TypeError (''Can'' @ [CHR 0x27] @ ''t instantiate abstract class '' @ class_name c
                  @ '' with abstract methods ''
                  @ str_join '', '' (sorted_names (abstractmethods c))))
      else Inr ())"

text \<open>
  The module-level name \<open>playsound\<close>, from the value of \<open>platform.system()\<close>; on any other
  system the name is not bound.
\<close>

definition playsound :: "string \<Rightarrow> py_class option" where
  "playsound operating_system =
     (if operating_system = ''Windows'' then Some playsoundWin
      else if operating_system = ''Darwin'' then Some playsoundOSX
      else if operating_system = ''Linux'' then Some playsoundNix
      else None)"

section \<open>Command texts and sample environments\<close>

text \<open>
  The texts that \<open>winCommand\<close> submits for an alias \<open>a\<close>, written out: the parts of a
  command joined by single spaces.
\<close>

definition close_command :: "string \<Rightarrow> string" where
  "close_command a = ''close '' @ a"

definition open_command :: "string \<Rightarrow> string \<Rightarrow> string" where
  "open_command sound a = ''open '' @ [CHR 0x22] @ sound @ [CHR 0x22] @ '' alias '' @ a"

definition play_command :: "string \<Rightarrow> string" where
  "play_command a = ''play '' @ a"

definition status_command :: "string \<Rightarrow> string" where
  "status_command a = ''status '' @ a @ '' mode''"

definition stop_command :: "string \<Rightarrow> string" where
  "stop_command a = ''stop '' @ a"

definition pause_command :: "string \<Rightarrow> string" where
  "pause_command a = ''pause '' @ a"

text \<open>
  The exception that leaves \<open>winCommand\<close> when the command \<open>cmd\<close> returns the non-zero
  error code \<open>c\<close>.
\<close>

definition command_error :: "mci_env \<Rightarrow> int \<Rightarrow> string \<Rightarrow> py_error" where
  "command_error env c cmd =
     (if valid_utf8 (mciGetErrorStringA env c)
      then PlaysoundException (exceptionMessage c cmd (mciGetErrorStringA env c))
      else UnicodeDecodeError (mciGetErrorStringA env c))"

text \<open>The alias \<open>play\<close> works with: the argument when it is truthy, else the attribute.\<close>

definition play_alias :: "win_self \<Rightarrow> string option \<Rightarrow> string" where
  "play_alias self alias_arg =
     (case alias_arg of None \<Rightarrow> alias_attr self
      | Some a \<Rightarrow> if a \<noteq> [] then a else alias_attr self)"

text \<open>A control interface that rejects every command with error 263.\<close>

definition mci_rejecting :: mci_env where
  "mci_rejecting =
     \<lparr>mciSendStringA = (\<lambda>h c. (263, [])),
      mciGetErrorStringA = (\<lambda>c. ''The specified device is not open or is not recognized by MCI.'')\<rparr>"

text \<open>
  A control interface that rejects every command with error 263 and describes it in
  French, in the ANSI code page: the byte \<open>0xE9\<close> is the letter e with an acute accent.
\<close>

definition mci_accented :: mci_env where
  "mci_accented =
     \<lparr>mciSendStringA = (\<lambda>h c. (263, [])),
      mciGetErrorStringA =
        (\<lambda>c. ''Le p'' @ [CHR 0xE9] @ ''riph'' @ [CHR 0xE9] @ ''rique sp'' @ [CHR 0xE9]
               @ ''cifi'' @ [CHR 0xE9] @ '' est ferm'' @ [CHR 0xE9] @ ''.'')\<rparr>"

text \<open>
  The stub of the end-to-end scenario: every command succeeds, and the status query reads
  \<open>playing\<close> the first two times it is asked and \<open>stopped\<close> from then on.
\<close>

definition mci_two_polls :: mci_env where
  "mci_two_polls =
     \<lparr>mciSendStringA =
        (\<lambda>h c. if prefix_of ''status '' c
               then (0, if length (filter (prefix_of ''status '') h) < 2 then ''playing''
                        else ''stopped'')
               else (0, [])),
      mciGetErrorStringA = (\<lambda>c. [])\<rparr>"



text \<open>A sound-object API in the directory \<open>/home/user\<close> that loads every URL.\<close>

definition osx_loading :: osx_env where
  "osx_loading = \<lparr>getcwd = ''/home/user'', initWithContentsOfURL = (\<lambda>u. True)\<rparr>"

text \<open>A pipeline library whose state-change request fails.\<close>

definition gst_failing :: gst_env where
  "gst_failing =
     \<lparr>element_made = True, abspath = (\<lambda>p. ''/home/user/'' @ p), pathname2url = (\<lambda>p. p),
      set_state_result = (\<lambda>st. FAILURE),
      repr_result = (\<lambda>r. ''<enum GST_STATE_CHANGE_FAILURE of type Gst.StateChangeReturn>''),
      eos_arrives = True\<rparr>"

section \<open>Basic facts about the string functions\<close>

lemma prefix_of_append: "prefix_of p (p @ s)"
  by (induction p) simp_all

lemma str_contains_Nil: "str_contains [] s"
  by (cases s) simp_all

lemma str_contains_prefix: "prefix_of sub s \<Longrightarrow> str_contains sub s"
  by (cases s; cases sub) simp_all

lemma str_contains_append: "str_contains sub (p @ sub @ q)"
proof (induction p)
  case Nil
  show ?case by (simp add: str_contains_prefix prefix_of_append)
next
  case (Cons c p)
  then show ?case by simp
qed

section \<open>Facts about the command submission\<close>

lemma str_int_289: "str_int 289 = ''289''"
  by (simp add: str_int_def nat_digits.simps)

lemma str_contains_append_end: "str_contains sub (p @ sub)"
  using str_contains_append [of sub p "[]"] by simp

lemma duplicate_alias_marker:
  "str_contains mcierr_duplicate_alias (exceptionMessage 289 cmd d)"
proof -
  have "exceptionMessage 289 cmd d =
      ''\<newline>    '' @ mcierr_duplicate_alias @ ('':\<newline>'' @ cmd @ ''\<newline>    '' @ d)"
    by (simp add: exceptionMessage_def mcierr_duplicate_alias_def str_int_289)
  then show ?thesis by (simp only: str_contains_append)
qed

lemma winCommand_eq:
  "winCommand env w command =
     (if fst (mciSendStringA env (sent w) (str_join '' '' command)) \<noteq> 0
      then Inl (command_error env
             (fst (mciSendStringA env (sent w) (str_join '' '' command))) (str_join '' '' command))
      else Inr (snd (mciSendStringA env (sent w) (str_join '' '' command))),
      w\<lparr>sent := sent w @ [str_join '' '' command]\<rparr>)"
  by (simp add: winCommand_def command_error_def decode_def Let_def split: prod.splits)

lemma message_contains_code: "str_contains (str_int c) (exceptionMessage c cmd d)"
  unfolding exceptionMessage_def by (rule str_contains_append)

lemma message_contains_command: "str_contains cmd (exceptionMessage c cmd d)"
proof -
  have "exceptionMessage c cmd d =
      (''\<newline>    Error '' @ str_int c @ '' for command:\<newline>'') @ cmd @
      (''\<newline>    '' @ d)"
    by (simp add: exceptionMessage_def)
  then show ?thesis by (simp only: str_contains_append)
qed

lemma message_contains_description: "str_contains d (exceptionMessage c cmd d)"
proof -
  have "exceptionMessage c cmd d =
      (''\<newline>    Error '' @ str_int c @ '' for command:\<newline>'' @ cmd @ ''\<newline>    '') @ d"
    by (simp add: exceptionMessage_def)
  then show ?thesis by (simp only: str_contains_append_end)
qed

lemma valid_stopped: "valid_utf8 ''stopped''"
  by (simp add: utf8_lead_def)

lemma valid_playing: "valid_utf8 ''playing''"
  by (simp add: utf8_lead_def)

section \<open>Facts about the polling loop\<close>

lemma get_status_eq:
  "get_status env w self =
     (if fst (mciSendStringA env (sent w) (status_command (alias_attr self))) \<noteq> 0
      then Inl (command_error env
             (fst (mciSendStringA env (sent w) (status_command (alias_attr self))))
             (status_command (alias_attr self)))
      else decode (snd (mciSendStringA env (sent w) (status_command (alias_attr self)))),
      w\<lparr>sent := sent w @ [status_command (alias_attr self)]\<rparr>)"
  by (simp add: get_status_def winCommand_eq status_command_def)

lemma loop_polls:
  assumes "\<forall>i<n. fst (mciSendStringA env (sent w @ replicate i (status_command (alias_attr self)))
                       (status_command (alias_attr self))) = 0
                \<and> valid_utf8 (snd (mciSendStringA env
                       (sent w @ replicate i (status_command (alias_attr self)))
                       (status_command (alias_attr self))))
                \<and> snd (mciSendStringA env (sent w @ replicate i (status_command (alias_attr self)))
                       (status_command (alias_attr self))) \<noteq> ''stopped''"
    and "mciSendStringA env (sent w @ replicate n (status_command (alias_attr self)))
           (status_command (alias_attr self)) = (0, ''stopped'')"
  shows "manage_block_loop env w self =
           Some (Inr (), w\<lparr>sent := sent w @ replicate (Suc n) (status_command (alias_attr self)),
                            sleeps := sleeps w + Suc n\<rparr>, self)"
  using assms
proof (induction n arbitrary: w)
  case 0
  then show ?case
    by (subst manage_block_loop.simps)
      (simp add: get_status_eq decode_def valid_stopped del: valid_utf8.simps)
next
  case (Suc n)
  let ?c = "status_command (alias_attr self)"
  let ?w1 = "w\<lparr>sleeps := Suc (sleeps w), sent := sent w @ [?c]\<rparr>"
  from Suc.prems(1) have first: "fst (mciSendStringA env (sent w) ?c) = 0"
    "valid_utf8 (snd (mciSendStringA env (sent w) ?c))"
    "snd (mciSendStringA env (sent w) ?c) \<noteq> ''stopped''"
    by (auto dest: spec [of _ 0])
  have shift: "sent ?w1 @ replicate i ?c = sent w @ replicate (Suc i) ?c" for i
    by (simp add: replicate_app_Cons_same)
  have "manage_block_loop env ?w1 self =
          Some (Inr (), ?w1\<lparr>sent := sent ?w1 @ replicate (Suc n) ?c,
                             sleeps := sleeps ?w1 + Suc n\<rparr>, self)"
  proof (rule Suc.IH)
    show "\<forall>i<n. fst (mciSendStringA env (sent ?w1 @ replicate i ?c) ?c) = 0 \<and>
             valid_utf8 (snd (mciSendStringA env (sent ?w1 @ replicate i ?c) ?c)) \<and>
             snd (mciSendStringA env (sent ?w1 @ replicate i ?c) ?c) \<noteq> ''stopped''"
      using Suc.prems(1) unfolding shift by auto
    show "mciSendStringA env (sent ?w1 @ replicate n ?c) ?c = (0, ''stopped'')"
      using Suc.prems(2) unfolding shift .
  qed
  then show ?case
    using first
    by (subst manage_block_loop.simps)
      (simp add: get_status_eq decode_def replicate_app_Cons_same)
qed

lemma loop_self:
  assumes "manage_block_loop env w self = Some y"
  shows "snd (snd y) = self"
  using assms
proof (rule manage_block_loop.raw_induct
    [rotated 1, where P = "\<lambda>env w self y. snd (snd y) = self"], goal_cases)
  case (1 loop env w self y)
  then show ?case
    by (auto simp: get_status_eq decode_def split: if_splits)
qed

lemma loop_alias_only_aux:
  assumes "manage_block_loop env w self = Some y"
  shows "\<forall>s2::win_self. alias_attr s2 = alias_attr self \<longrightarrow>
           manage_block_loop env w s2 = Some (fst y, fst (snd y), s2)"
  using assms
proof (rule manage_block_loop.raw_induct
    [rotated 1, where P = "\<lambda>env w self y. \<forall>s2::win_self. alias_attr s2 = alias_attr self \<longrightarrow>
           manage_block_loop env w s2 = Some (fst y, fst (snd y), s2)"], goal_cases)
  case (1 loop env w self y)
  show ?case
  proof (intro allI impI)
    fix s2 :: win_self assume a: "alias_attr s2 = alias_attr self"
    show "manage_block_loop env w s2 = Some (fst y, fst (snd y), s2)"
      using 1 a
      by (subst manage_block_loop.simps)
        (auto simp: get_status_eq decode_def split: if_splits)
  qed
qed

lemma loop_alias_only:
  "manage_block_loop env w self = Some y \<Longrightarrow> alias_attr s2 = alias_attr self \<Longrightarrow>
     manage_block_loop env w s2 = Some (fst y, fst (snd y), s2)"
  using loop_alias_only_aux by blast

lemma loop_alias_eq:
  assumes "alias_attr s2 = alias_attr self"
  shows "manage_block_loop env w s2 =
           map_option (\<lambda>y. (fst y, fst (snd y), s2)) (manage_block_loop env w self)"
proof (cases "manage_block_loop env w self")
  case None
  show ?thesis
  proof (cases "manage_block_loop env w s2")
    case (Some y)
    from loop_alias_only [OF Some assms [symmetric]] None show ?thesis by simp
  qed (simp add: None)
next
  case (Some y)
  from loop_alias_only [OF Some assms] Some show ?thesis by simp
qed




section \<open>Facts about play, resume and the sample environments\<close>

lemma play_self_eq:
  "(case alias_arg of None \<Rightarrow> self
    | Some a \<Rightarrow> if a \<noteq> [] then self\<lparr>alias_attr := a\<rparr> else self)
   = self\<lparr>alias_attr := play_alias self alias_arg\<rparr>"
  by (simp add: play_alias_def split: option.splits)

lemma play_unfold:
  "playsoundWin_play env w self sound block alias_arg =
     (let a = play_alias self alias_arg;
          s1 = self\<lparr>alias_attr := a\<rparr>;
          h2 = sent w @ [close_command a, open_command sound a];
          oc = fst (mciSendStringA env (sent w @ [close_command a]) (open_command sound a));
          pc = fst (mciSendStringA env h2 (play_command a));
          w3 = w\<lparr>sent := h2 @ [play_command a]\<rparr>
      in if oc \<noteq> 0 \<and> \<not> (valid_utf8 (mciGetErrorStringA env oc)
                           \<and> str_contains mcierr_duplicate_alias
                               (exceptionMessage oc (open_command sound a)
                                  (mciGetErrorStringA env oc)))
         then Some (Inl (command_error env oc (open_command sound a)), w\<lparr>sent := h2\<rparr>, s1)
         else if pc \<noteq> 0
           then Some (Inl (command_error env pc (play_command a)), w3, s1)
           else if block then manage_block env w3 s1 else Some (Inr (), w3, s1))"
  unfolding playsoundWin_play_def play_self_eq
  by (simp add: Let_def close_alias_def winCommand_eq close_command_def open_command_def
      play_command_def command_error_def)

lemma manage_block_polls:
  assumes "\<forall>i<n. fst (mciSendStringA env (sent w @ replicate i (status_command (alias_attr self)))
                       (status_command (alias_attr self))) = 0
                \<and> valid_utf8 (snd (mciSendStringA env
                       (sent w @ replicate i (status_command (alias_attr self)))
                       (status_command (alias_attr self))))
                \<and> snd (mciSendStringA env (sent w @ replicate i (status_command (alias_attr self)))
                       (status_command (alias_attr self))) \<noteq> ''stopped''"
    and "mciSendStringA env (sent w @ replicate n (status_command (alias_attr self)))
           (status_command (alias_attr self)) = (0, ''stopped'')"
  shows "manage_block env w self =
           Some (Inr (), w\<lparr>sent := sent w @ replicate (Suc n) (status_command (alias_attr self)),
                            sleeps := sleeps w + Suc n\<rparr>,
                 self\<lparr>stop_sound := False, pause_audio_attr := Some False\<rparr>)"
  unfolding manage_block_def
  using loop_polls [of n env w "self\<lparr>stop_sound := False, pause_audio_attr := Some False\<rparr>"] assms
  by simp

lemma play_blocking_polls:
  assumes a: "a = play_alias self alias_arg"
    and h3: "h3 = sent w @ [close_command a, open_command sound a, play_command a]"
    and opened: "fst (mciSendStringA env (sent w @ [close_command a]) (open_command sound a)) = 0
        \<or> fst (mciSendStringA env (sent w @ [close_command a]) (open_command sound a)) = 289
          \<and> valid_utf8 (mciGetErrorStringA env 289)"
    and played: "fst (mciSendStringA env (sent w @ [close_command a, open_command sound a])
                   (play_command a)) = 0"
    and polls: "\<forall>i<n. fst (mciSendStringA env (h3 @ replicate i (status_command a))
                       (status_command a)) = 0
                \<and> valid_utf8 (snd (mciSendStringA env (h3 @ replicate i (status_command a))
                       (status_command a)))
                \<and> snd (mciSendStringA env (h3 @ replicate i (status_command a))
                       (status_command a)) \<noteq> ''stopped''"
    and last: "mciSendStringA env (h3 @ replicate n (status_command a)) (status_command a)
           = (0, ''stopped'')"
  shows "playsoundWin_play env w self sound True alias_arg =
           Some (Inr (), w\<lparr>sent := h3 @ replicate (Suc n) (status_command a),
                            sleeps := sleeps w + Suc n\<rparr>,
                 self\<lparr>alias_attr := a, stop_sound := False, pause_audio_attr := Some False\<rparr>)"
proof -
  let ?w3 = "w\<lparr>sent := h3\<rparr>"
  let ?s1 = "self\<lparr>alias_attr := a\<rparr>"
  have "manage_block env ?w3 ?s1 =
      Some (Inr (), ?w3\<lparr>sent := sent ?w3 @ replicate (Suc n) (status_command (alias_attr ?s1)),
                            sleeps := sleeps ?w3 + Suc n\<rparr>,
            ?s1\<lparr>stop_sound := False, pause_audio_attr := Some False\<rparr>)"
    by (rule manage_block_polls) (use polls last in simp_all)
  then have mb: "manage_block env ?w3 ?s1 =
      Some (Inr (), w\<lparr>sent := h3 @ replicate (Suc n) (status_command a),
                            sleeps := sleeps w + Suc n\<rparr>,
            self\<lparr>alias_attr := a, stop_sound := False, pause_audio_attr := Some False\<rparr>)"
    by simp
  from opened have tolerated:
    "\<not> (fst (mciSendStringA env (sent w @ [close_command a]) (open_command sound a)) \<noteq> 0
        \<and> \<not> (valid_utf8 (mciGetErrorStringA env
                 (fst (mciSendStringA env (sent w @ [close_command a]) (open_command sound a))))
             \<and> str_contains mcierr_duplicate_alias
             (exceptionMessage
               (fst (mciSendStringA env (sent w @ [close_command a]) (open_command sound a)))
               (open_command sound a)
               (mciGetErrorStringA env
                 (fst (mciSendStringA env (sent w @ [close_command a]) (open_command sound a)))))))"
    using duplicate_alias_marker by auto
  have "playsoundWin_play env w self sound True alias_arg = manage_block env ?w3 ?s1"
    unfolding play_unfold Let_def
    using tolerated played a h3 by (auto simp del: valid_utf8.simps)
  with mb show ?thesis by simp
qed

lemmas stub_texts = status_command_def close_command_def open_command_def play_command_def
  stop_command_def pause_command_def

lemma str_int_1: "str_int 1 = ''1''"
  by (simp add: str_int_def nat_digits.simps)

lemma init_1_alias: "play_alias (playsoundWin_init 1) None = ''playsound_alias_1''"
  by (simp add: play_alias_def playsoundWin_init_def str_int_1)

lemma two_polls_run:
  "playsoundWin_play mci_two_polls \<lparr>sent = [], sleeps = 0\<rparr> (playsoundWin_init 1)
       ''song.mp3'' True None =
     Some (Inr (),
           \<lparr>sent = [close_command ''playsound_alias_1'',
                    open_command ''song.mp3'' ''playsound_alias_1'',
                    play_command ''playsound_alias_1'',
                    status_command ''playsound_alias_1'',
                    status_command ''playsound_alias_1'',
                    status_command ''playsound_alias_1''],
            sleeps = 3\<rparr>,
           (playsoundWin_init 1)\<lparr>stop_sound := False, pause_audio_attr := Some False\<rparr>)"
proof -
  let ?a = "''playsound_alias_1''"
  let ?h3 = "[close_command ?a, open_command ''song.mp3'' ?a, play_command ?a]"
  have polls: "\<forall>i<2. fst (mciSendStringA mci_two_polls (?h3 @ replicate i (status_command ?a))
                       (status_command ?a)) = 0
                \<and> valid_utf8 (snd (mciSendStringA mci_two_polls
                       (?h3 @ replicate i (status_command ?a)) (status_command ?a)))
                \<and> snd (mciSendStringA mci_two_polls (?h3 @ replicate i (status_command ?a))
                       (status_command ?a)) \<noteq> ''stopped''"
    by (auto simp: less_2_cases_iff mci_two_polls_def status_command_def close_command_def
        open_command_def play_command_def utf8_lead_def)
  have last: "mciSendStringA mci_two_polls (?h3 @ replicate 2 (status_command ?a))
      (status_command ?a) = (0, ''stopped'')"
    by (simp add: numeral_2_eq_2 mci_two_polls_def status_command_def close_command_def
        open_command_def play_command_def)
  have "playsoundWin_play mci_two_polls \<lparr>sent = [], sleeps = 0\<rparr> (playsoundWin_init 1)
       ''song.mp3'' True None =
     Some (Inr (), \<lparr>sent = [], sleeps = 0\<rparr>\<lparr>sent := ?h3 @ replicate (Suc 2) (status_command ?a),
                            sleeps := sleeps \<lparr>sent = [], sleeps = 0\<rparr> + Suc 2\<rparr>,
           (playsoundWin_init 1)\<lparr>alias_attr := ?a, stop_sound := False,
              pause_audio_attr := Some False\<rparr>)"
    by (rule play_blocking_polls [OF init_1_alias [symmetric] _ _ _ polls last])
      (simp_all add: mci_two_polls_def open_command_def play_command_def)
  then show ?thesis
    by (simp add: numeral_2_eq_2 playsoundWin_init_def str_int_1)
qed

lemma manage_block_attr:
  assumes "manage_block env w self = Some y"
  shows "pause_audio_attr (snd (snd y)) = Some False"
proof -
  from assms have "manage_block_loop env w
      (self\<lparr>stop_sound := False, pause_audio_attr := Some False\<rparr>) = Some y"
    by (simp add: manage_block_def)
  from loop_self [OF this] show ?thesis by simp
qed

lemma play_attr:
  assumes "playsoundWin_play env w self sound block alias_arg = Some y"
  shows "pause_audio_attr (snd (snd y)) = Some False
       \<or> pause_audio_attr (snd (snd y)) = pause_audio_attr self"
  using assms unfolding play_unfold Let_def
  by (auto split: if_splits dest: manage_block_attr)

lemma play_blocking_attr:
  assumes "playsoundWin_play env w self sound True alias_arg = Some (Inr (), w', s')"
  shows "pause_audio_attr s' = Some False"
  using assms unfolding play_unfold Let_def
  by (auto split: if_splits dest: manage_block_attr)

lemma resume_attr:
  assumes "playsoundWin_resume env w self block = Some y"
  shows "pause_audio_attr (snd (snd y)) = Some False
       \<or> pause_audio_attr (snd (snd y)) = pause_audio_attr self"
  using assms unfolding playsoundWin_resume_def Let_def
  by (auto simp: get_status_eq resume_audio_def winCommand_eq decode_def
      split: if_splits dest: manage_block_attr)

lemma resume_blocking_attr:
  assumes "fst (get_status env w self) = Inr ''paused''"
    and "playsoundWin_resume env w self True = Some (Inr (), w', s')"
  shows "pause_audio_attr s' = Some False"
  using assms unfolding playsoundWin_resume_def Let_def
  by (auto simp: get_status_eq resume_audio_def winCommand_eq decode_def
      split: if_splits dest: manage_block_attr)

section \<open>Calling stop before play\<close>

text \<open>
  Claim C1, as the code has it. On a freshly constructed instance, before any \<open>play\<close>:
  \<open>stop\<close> of the Native-Object backend returns normally, makes no native call and only
  sets the stop flag; \<open>stop\<close> of the Command-Interface backend sets the stop flag and
  submits \<open>stop <alias>\<close>, returns normally when the submission gives error code 0 and
  raises when it gives another code: a \<open>PlaysoundException\<close> with the code, the command
  and the description, when the description decodes.
\<close>

theorem stop_before_play:
  "playsoundOSX_stop w playsoundOSX_init =
     (Inr (), w, playsoundOSX_init\<lparr>osx_stop_sound := True\<rparr>)
   \<and> snd (playsoundWin_stop env w' (playsoundWin_init i)) =
       (w'\<lparr>sent := sent w' @ [stop_command (alias_attr (playsoundWin_init i))]\<rparr>,
        (playsoundWin_init i)\<lparr>stop_sound := True\<rparr>)
   \<and> (fst (mciSendStringA env (sent w') (stop_command (alias_attr (playsoundWin_init i)))) = 0
        \<longrightarrow> fst (playsoundWin_stop env w' (playsoundWin_init i)) = Inr ())
   \<and> (fst (mciSendStringA env (sent w') (stop_command (alias_attr (playsoundWin_init i)))) \<noteq> 0
        \<longrightarrow> (\<exists>e. fst (playsoundWin_stop env w' (playsoundWin_init i)) = Inl e))
   \<and> (fst (mciSendStringA env (sent w') (stop_command (alias_attr (playsoundWin_init i)))) = c
        \<and> c \<noteq> 0 \<and> valid_utf8 (mciGetErrorStringA env c)
        \<longrightarrow> fst (playsoundWin_stop env w' (playsoundWin_init i)) =
              Inl (PlaysoundException
                (exceptionMessage c (stop_command (alias_attr (playsoundWin_init i)))
                   (mciGetErrorStringA env c))))"
  by (simp add: playsoundOSX_stop_def playsoundOSX_init_def playsoundWin_stop_def stop_audio_def
      winCommand_eq stop_command_def command_error_def Let_def del: valid_utf8.simps)

theorem stop_before_play_witness:
  "fst (playsoundWin_stop mci_two_polls \<lparr>sent = [], sleeps = 0\<rparr> (playsoundWin_init 1)) = Inr ()
   \<and> fst (playsoundWin_stop mci_rejecting \<lparr>sent = [], sleeps = 0\<rparr> (playsoundWin_init 1)) =
       Inl (PlaysoundException
         (exceptionMessage 263 (stop_command ''playsound_alias_1'')
            ''The specified device is not open or is not recognized by MCI.''))"
proof -
  let ?w = "\<lparr>sent = [], sleeps = 0\<rparr>"
  let ?cmd = "stop_command (alias_attr (playsoundWin_init 1))"
  have al: "alias_attr (playsoundWin_init 1) = ''playsound_alias_1''"
    by (simp add: playsoundWin_init_def str_int_1)
  have ok: "fst (mciSendStringA mci_two_polls (sent ?w) ?cmd) = 0"
    by (simp add: mci_two_polls_def al stub_texts)
  have rejected: "fst (mciSendStringA mci_rejecting (sent ?w) ?cmd) = 263 \<and> (263::int) \<noteq> 0
      \<and> valid_utf8 (mciGetErrorStringA mci_rejecting 263)"
    by (simp add: mci_rejecting_def utf8_lead_def)
  have d: "mciGetErrorStringA mci_rejecting 263 =
      ''The specified device is not open or is not recognized by MCI.''"
    by (simp add: mci_rejecting_def)
  from stop_before_play [of _ mci_two_polls ?w 1] ok
  have r1: "fst (playsoundWin_stop mci_two_polls ?w (playsoundWin_init 1)) = Inr ()"
    by blast
  from stop_before_play [of _ mci_rejecting ?w 1 263] rejected
  have "fst (playsoundWin_stop mci_rejecting ?w (playsoundWin_init 1)) =
      Inl (PlaysoundException (exceptionMessage 263 ?cmd (mciGetErrorStringA mci_rejecting 263)))"
    by blast
  with r1 show ?thesis by (simp only: al d)
qed

text \<open>
  \<open>stop\<close> before \<open>play\<close> does raise on the Command-Interface backend when the
  control interface rejects the command, as it does for an alias that was never opened.
\<close>

theorem stop_before_play_counterexample:
  "playsoundWin_stop mci_rejecting \<lparr>sent = [], sleeps = 0\<rparr> (playsoundWin_init 1) =
     (Inl (PlaysoundException
        (''\<newline>    Error 263 for command:\<newline>stop playsound_alias_1\<newline>    ''
           @ ''The specified device is not open or is not recognized by MCI.'')),
      \<lparr>sent = [''stop playsound_alias_1''], sleeps = 0\<rparr>,
      (playsoundWin_init 1)\<lparr>stop_sound := True\<rparr>)"
  by (simp add: playsoundWin_stop_def stop_audio_def winCommand_eq command_error_def
      playsoundWin_init_def str_int_1 mci_rejecting_def exceptionMessage_def str_int_def
      nat_digits.simps utf8_lead_def Let_def)

section \<open>Tolerance of the duplicate-alias error\<close>




section \<open>Error reporting of the command submission\<close>

text \<open>
  A command submission that returns a non-zero error code raises a
  \<open>PlaysoundException\<close> whose message contains the decimal error code, the command text
  as submitted and the native description, whenever that description decodes.
\<close>

lemma winCommand_error:
  assumes "fst (mciSendStringA env (sent w) (str_join '' '' command)) = errorCode"
    and "errorCode \<noteq> 0"
    and "valid_utf8 (mciGetErrorStringA env errorCode)"
  shows "fst (winCommand env w command) =
           Inl (PlaysoundException (exceptionMessage errorCode (str_join '' '' command)
                  (mciGetErrorStringA env errorCode)))
       \<and> str_contains (str_int errorCode)
            (exceptionMessage errorCode (str_join '' '' command) (mciGetErrorStringA env errorCode))
       \<and> str_contains (str_join '' '' command)
            (exceptionMessage errorCode (str_join '' '' command) (mciGetErrorStringA env errorCode))
       \<and> str_contains (mciGetErrorStringA env errorCode)
            (exceptionMessage errorCode (str_join '' '' command) (mciGetErrorStringA env errorCode))"
  using assms
  by (simp add: winCommand_eq command_error_def message_contains_code message_contains_command
      message_contains_description del: valid_utf8.simps)

text \<open>
  Claim C3 at an input where the code departs from it. The control interface rejects the
  command \<open>stop a\<close> with error 263 and a description that holds the byte \<open>0xE9\<close>, an
  accented letter in the ANSI code page and no well-formed UTF-8. Building the message
  fails in \<open>decode\<close>: what leaves \<open>winCommand\<close> is a \<open>UnicodeDecodeError\<close>, not a
  \<open>PlaysoundException\<close> with the code, the command and the description.
\<close>

theorem winCommand_undecodable_description:
  "winCommand mci_accented \<lparr>sent = [], sleeps = 0\<rparr> [''stop'', ''a''] =
     (Inl (UnicodeDecodeError
        (''Le p'' @ [CHR 0xE9] @ ''riph'' @ [CHR 0xE9] @ ''rique sp'' @ [CHR 0xE9]
           @ ''cifi'' @ [CHR 0xE9] @ '' est ferm'' @ [CHR 0xE9] @ ''.'')),
      \<lparr>sent = [''stop a''], sleeps = 0\<rparr>)"
  by (simp add: winCommand_eq command_error_def mci_accented_def utf8_lead_def in_range_def)

section \<open>The Native-Object backend builds the URL of a relative path\<close>

text \<open>
  Claim C4. For every input string that contains no \<open>://\<close> and does not start with
  \<open>/\<close>, \<open>play\<close> of the Native-Object backend builds the URL from exactly
  \<open>file://\<close>, the current working directory, \<open>/\<close> and the input, and passes that URL to
  the constructor of the sound object.
\<close>

theorem osx_play_url:
  assumes "\<not> str_contains ''://'' sound" and "\<not> prefix_of ''/'' sound"
  shows "\<exists>r rest self'. playsoundOSX_play env w self sound block =
           (r, w @ URLWithString (''file://'' @ getcwd env @ ''/'' @ sound)
                 # InitWithContentsOfURL (''file://'' @ getcwd env @ ''/'' @ sound) # rest, self')"
  using assms by (simp add: playsoundOSX_play_def Let_def split: option.splits)

theorem osx_play_url_witness:
  "\<not> str_contains ''://'' ''song.mp3'' \<and> \<not> prefix_of ''/'' ''song.mp3'' \<and>
   (\<exists>r rest self'. playsoundOSX_play osx_loading [] playsoundOSX_init ''song.mp3'' True =
      (r, URLWithString ''file:///home/user/song.mp3''
            # InitWithContentsOfURL ''file:///home/user/song.mp3'' # rest, self'))"
proof -
  have a: "\<not> str_contains ''://'' ''song.mp3''" by simp
  have b: "\<not> prefix_of ''/'' ''song.mp3''" by simp
  from osx_play_url [OF a b, of osx_loading "[]" playsoundOSX_init True] a b
  show ?thesis by (simp add: osx_loading_def)
qed

section \<open>The stop flag and the polling loop\<close>

text \<open>
  Claim C7, as the code has it. \<open>stop\<close> sets the stop flag, but the blocking poll loop
  never reads it: the loop started with the flag set to any value \<open>b\<close> submits the same
  commands, sleeps as often and ends (or fails to end) in the same way as with the flag
  as it was, and \<open>_manage_block\<close> clears the flag before the loop starts.
\<close>

theorem stop_flag_not_consulted:
  "stop_sound (snd (snd (playsoundWin_stop env w self))) = True
   \<and> manage_block_loop env w (self\<lparr>stop_sound := b\<rparr>) =
       map_option (\<lambda>y. (fst y, fst (snd y), self\<lparr>stop_sound := b\<rparr>)) (manage_block_loop env w self)
   \<and> manage_block env w (self\<lparr>stop_sound := b\<rparr>) = manage_block env w self"
proof (intro conjI)
  show "stop_sound (snd (snd (playsoundWin_stop env w self))) = True"
    by (simp add: playsoundWin_stop_def Let_def split: prod.splits)
  show "manage_block_loop env w (self\<lparr>stop_sound := b\<rparr>) =
       map_option (\<lambda>y. (fst y, fst (snd y), self\<lparr>stop_sound := b\<rparr>)) (manage_block_loop env w self)"
    by (rule loop_alias_eq) simp
  show "manage_block env w (self\<lparr>stop_sound := b\<rparr>) = manage_block env w self"
    by (simp add: manage_block_def)
qed

text \<open>
  With the stop flag set, the loop does not leave at its first check: it keeps polling
  until the status reads \<open>stopped\<close>, at the third query, and the flag is still set.
\<close>

theorem stop_flag_counterexample:
  "manage_block_loop mci_two_polls \<lparr>sent = [], sleeps = 0\<rparr>
       ((playsoundWin_init 1)\<lparr>stop_sound := True\<rparr>) =
     Some (Inr (),
           \<lparr>sent = [status_command ''playsound_alias_1'', status_command ''playsound_alias_1'',
                    status_command ''playsound_alias_1''],
            sleeps = 3\<rparr>,
           (playsoundWin_init 1)\<lparr>stop_sound := True\<rparr>)"
proof -
  let ?a = "''playsound_alias_1''"
  let ?w = "\<lparr>sent = [], sleeps = 0\<rparr>"
  let ?s = "(playsoundWin_init 1)\<lparr>stop_sound := True\<rparr>"
  have al: "alias_attr ?s = ?a"
    by (simp add: playsoundWin_init_def str_int_1)
  have polls: "\<forall>i<2. fst (mciSendStringA mci_two_polls (sent ?w @ replicate i (status_command (alias_attr ?s)))
                       (status_command (alias_attr ?s))) = 0
                \<and> valid_utf8 (snd (mciSendStringA mci_two_polls
                       (sent ?w @ replicate i (status_command (alias_attr ?s)))
                       (status_command (alias_attr ?s))))
                \<and> snd (mciSendStringA mci_two_polls (sent ?w @ replicate i (status_command (alias_attr ?s)))
                       (status_command (alias_attr ?s))) \<noteq> ''stopped''"
    unfolding al by (auto simp: less_2_cases_iff mci_two_polls_def stub_texts utf8_lead_def)
  have last: "mciSendStringA mci_two_polls (sent ?w @ replicate 2 (status_command (alias_attr ?s)))
      (status_command (alias_attr ?s)) = (0, ''stopped'')"
    unfolding al by (simp add: numeral_2_eq_2 mci_two_polls_def stub_texts)
  from loop_polls [OF polls last] show ?thesis
    unfolding al by (simp add: numeral_2_eq_2)
qed

section \<open>The end-to-end scenario\<close>

text \<open>
  Claim C8, as the code has it. When \<open>open\<close> and \<open>play\<close> succeed and the status query
  reads \<open>playing\<close> at the first two polls and \<open>stopped\<close> at the third, a blocking
  \<open>play\<close> returns normally after exactly three sleeps of the poll interval: the loop
  sleeps before each of its three status queries.
\<close>

theorem play_two_polls_three_sleeps:
  assumes "a = play_alias self alias_arg"
    and "h3 = sent w @ [close_command a, open_command sound a, play_command a]"
    and "fst (mciSendStringA env (sent w @ [close_command a]) (open_command sound a)) = 0"
    and "fst (mciSendStringA env (sent w @ [close_command a, open_command sound a])
           (play_command a)) = 0"
    and "mciSendStringA env h3 (status_command a) = (0, ''playing'')"
    and "mciSendStringA env (h3 @ [status_command a]) (status_command a) = (0, ''playing'')"
    and "mciSendStringA env (h3 @ [status_command a, status_command a]) (status_command a)
           = (0, ''stopped'')"
  shows "playsoundWin_play env w self sound True alias_arg =
           Some (Inr (),
                 w\<lparr>sent := h3 @ [status_command a, status_command a, status_command a],
                   sleeps := sleeps w + 3\<rparr>,
                 self\<lparr>alias_attr := a, stop_sound := False, pause_audio_attr := Some False\<rparr>)"
proof -
  have polls: "\<forall>i<2. fst (mciSendStringA env (h3 @ replicate i (status_command a))
                       (status_command a)) = 0
                \<and> valid_utf8 (snd (mciSendStringA env (h3 @ replicate i (status_command a))
                       (status_command a)))
                \<and> snd (mciSendStringA env (h3 @ replicate i (status_command a))
                       (status_command a)) \<noteq> ''stopped''"
    using assms(5,6) valid_playing by (auto simp: less_2_cases_iff simp del: valid_utf8.simps)
  have last: "mciSendStringA env (h3 @ replicate 2 (status_command a)) (status_command a)
           = (0, ''stopped'')"
    using assms(7) by (simp add: numeral_2_eq_2)
  from play_blocking_polls [OF assms(1,2) disjI1 [OF assms(3)] assms(4) polls last]
  show ?thesis by (simp add: numeral_2_eq_2 numeral_3_eq_3)
qed

theorem play_two_polls_three_sleeps_witness:
  "playsoundWin_play mci_two_polls \<lparr>sent = [], sleeps = 0\<rparr> (playsoundWin_init 1)
       ''song.mp3'' True None =
     Some (Inr (),
           \<lparr>sent = [close_command ''playsound_alias_1'',
                    open_command ''song.mp3'' ''playsound_alias_1'',
                    play_command ''playsound_alias_1'',
                    status_command ''playsound_alias_1'',
                    status_command ''playsound_alias_1'',
                    status_command ''playsound_alias_1''],
            sleeps = 3\<rparr>,
           (playsoundWin_init 1)\<lparr>stop_sound := False, pause_audio_attr := Some False\<rparr>)"
proof -
  let ?a = "''playsound_alias_1''"
  let ?w = "\<lparr>sent = [], sleeps = 0\<rparr>"
  let ?h3 = "sent ?w @ [close_command ?a, open_command ''song.mp3'' ?a, play_command ?a]"
  have 1: "?a = play_alias (playsoundWin_init 1) None"
    by (simp add: init_1_alias)
  have 3: "fst (mciSendStringA mci_two_polls (sent ?w @ [close_command ?a])
             (open_command ''song.mp3'' ?a)) = 0"
    by (simp add: mci_two_polls_def stub_texts)
  have 4: "fst (mciSendStringA mci_two_polls
             (sent ?w @ [close_command ?a, open_command ''song.mp3'' ?a]) (play_command ?a)) = 0"
    by (simp add: mci_two_polls_def stub_texts)
  have 5: "mciSendStringA mci_two_polls ?h3 (status_command ?a) = (0, ''playing'')"
    by (simp add: mci_two_polls_def stub_texts)
  have 6: "mciSendStringA mci_two_polls (?h3 @ [status_command ?a]) (status_command ?a)
             = (0, ''playing'')"
    by (simp add: mci_two_polls_def stub_texts)
  have 7: "mciSendStringA mci_two_polls (?h3 @ [status_command ?a, status_command ?a])
             (status_command ?a) = (0, ''stopped'')"
    by (simp add: mci_two_polls_def stub_texts)
  from play_two_polls_three_sleeps [OF 1 refl 3 4 5 6 7]
  show ?thesis by (simp add: playsoundWin_init_def str_int_1)
qed

text \<open>
  In the scenario the number of sleeps is three, not two.
\<close>

theorem play_two_polls_counterexample:
  "map_option (\<lambda>y. (fst y, sleeps (fst (snd y))))
     (playsoundWin_play mci_two_polls \<lparr>sent = [], sleeps = 0\<rparr> (playsoundWin_init 1)
        ''song.mp3'' True None) = Some (Inr (), 3)
   \<and> map_option (\<lambda>y. (fst y, sleeps (fst (snd y))))
     (playsoundWin_play mci_two_polls \<lparr>sent = [], sleeps = 0\<rparr> (playsoundWin_init 1)
        ''song.mp3'' True None) \<noteq> Some (Inr (), 2)"
  by (simp add: two_polls_run)

section \<open>pause after a blocking call\<close>

text \<open>
  Claim C9, as the code has it. After a \<open>play\<close> with \<open>block=True\<close> that returns
  normally, and after a \<open>resume\<close> with \<open>block=True\<close> that finds the status \<open>paused\<close>
  and returns normally, the instance attribute \<open>pause_audio\<close> is bound to \<open>False\<close>.
  While it is, \<open>pause\<close> raises a \<open>TypeError\<close> without submitting a command, and
  \<open>pause\<close>, \<open>stop\<close>, \<open>play\<close> and \<open>resume\<close> all leave the attribute bound to
  \<open>False\<close>, whatever their outcome: every later \<open>pause\<close> raises the \<open>TypeError\<close>.
\<close>

theorem pause_after_blocking:
  "(\<forall>w' s'. playsoundWin_play env w self sound True alias_arg = Some (Inr (), w', s')
        \<longrightarrow> pause_audio_attr s' = Some False)
   \<and> (\<forall>w' s'. fst (get_status env w self) = Inr ''paused''
          \<and> playsoundWin_resume env w self True = Some (Inr (), w', s')
        \<longrightarrow> pause_audio_attr s' = Some False)
   \<and> (pause_audio_attr self = Some False \<longrightarrow>
        playsoundWin_pause env w self =
          (Inl (TypeError ([CHR 0x27] @ ''bool'' @ [CHR 0x27] @ '' object is not callable'')),
           w, self\<lparr>pause_sound := True\<rparr>)
      \<and> pause_audio_attr (snd (snd (playsoundWin_stop env w self))) = Some False
      \<and> (\<forall>y. playsoundWin_play env w self sound block alias_arg = Some y
            \<longrightarrow> pause_audio_attr (snd (snd y)) = Some False)
      \<and> (\<forall>y. playsoundWin_resume env w self block = Some y
            \<longrightarrow> pause_audio_attr (snd (snd y)) = Some False))"
proof (intro conjI allI impI)
  fix w' s'
  assume "playsoundWin_play env w self sound True alias_arg = Some (Inr (), w', s')"
  then show "pause_audio_attr s' = Some False" by (rule play_blocking_attr)
next
  fix w' s'
  assume "fst (get_status env w self) = Inr ''paused''
          \<and> playsoundWin_resume env w self True = Some (Inr (), w', s')"
  then show "pause_audio_attr s' = Some False" by (blast intro: resume_blocking_attr)
next
  assume "pause_audio_attr self = Some False"
  then show "playsoundWin_pause env w self =
          (Inl (TypeError ([CHR 0x27] @ ''bool'' @ [CHR 0x27] @ '' object is not callable'')),
           w, self\<lparr>pause_sound := True\<rparr>)"
    by (simp add: playsoundWin_pause_def Let_def)
next
  assume "pause_audio_attr self = Some False"
  then show "pause_audio_attr (snd (snd (playsoundWin_stop env w self))) = Some False"
    by (simp add: playsoundWin_stop_def Let_def split: prod.splits)
next
  fix y
  assume "pause_audio_attr self = Some False"
    and "playsoundWin_play env w self sound block alias_arg = Some y"
  then show "pause_audio_attr (snd (snd y)) = Some False"
    using play_attr by fastforce
next
  fix y
  assume "pause_audio_attr self = Some False"
    and "playsoundWin_resume env w self block = Some y"
  then show "pause_audio_attr (snd (snd y)) = Some False"
    using resume_attr by fastforce
qed

theorem pause_after_blocking_witness:
  "playsoundWin_play mci_two_polls \<lparr>sent = [], sleeps = 0\<rparr> (playsoundWin_init 1)
       ''song.mp3'' True None =
     Some (Inr (),
           \<lparr>sent = [close_command ''playsound_alias_1'',
                    open_command ''song.mp3'' ''playsound_alias_1'',
                    play_command ''playsound_alias_1'',
                    status_command ''playsound_alias_1'',
                    status_command ''playsound_alias_1'',
                    status_command ''playsound_alias_1''],
            sleeps = 3\<rparr>,
           (playsoundWin_init 1)\<lparr>stop_sound := False, pause_audio_attr := Some False\<rparr>)
   \<and> fst (playsoundWin_pause mci_two_polls
        \<lparr>sent = [close_command ''playsound_alias_1'',
                 open_command ''song.mp3'' ''playsound_alias_1'',
                 play_command ''playsound_alias_1'',
                 status_command ''playsound_alias_1'',
                 status_command ''playsound_alias_1'',
                 status_command ''playsound_alias_1''],
         sleeps = 3\<rparr>
        ((playsoundWin_init 1)\<lparr>stop_sound := False, pause_audio_attr := Some False\<rparr>)) =
       Inl (TypeError ([CHR 0x27] @ ''bool'' @ [CHR 0x27] @ '' object is not callable''))"
proof -
  let ?w3 = "\<lparr>sent = [close_command ''playsound_alias_1'',
                 open_command ''song.mp3'' ''playsound_alias_1'',
                 play_command ''playsound_alias_1'',
                 status_command ''playsound_alias_1'',
                 status_command ''playsound_alias_1'',
                 status_command ''playsound_alias_1''],
         sleeps = 3\<rparr>"
  let ?s3 = "(playsoundWin_init 1)\<lparr>stop_sound := False, pause_audio_attr := Some False\<rparr>"
  note run = two_polls_run
  from pause_after_blocking [of mci_two_polls "\<lparr>sent = [], sleeps = 0\<rparr>" "playsoundWin_init 1"
      "''song.mp3''" None] run
  have attr: "pause_audio_attr ?s3 = Some False" by blast
  from pause_after_blocking [of mci_two_polls ?w3 ?s3] attr
  have "playsoundWin_pause mci_two_polls ?w3 ?s3 =
          (Inl (TypeError ([CHR 0x27] @ ''bool'' @ [CHR 0x27] @ '' object is not callable'')),
           ?w3, ?s3\<lparr>pause_sound := True\<rparr>)"
    by blast
  with run show ?thesis by simp
qed

text \<open>
  A \<open>resume\<close> with \<open>block=True\<close> that finds a status other than \<open>paused\<close> returns
  normally without entering the loop; the attribute is not rebound, and the next
  \<open>pause\<close> submits its command and returns normally.
\<close>

theorem pause_after_resume_counterexample:
  "playsoundWin_resume mci_two_polls \<lparr>sent = [], sleeps = 0\<rparr> (playsoundWin_init 1) True =
     Some (Inr (), \<lparr>sent = [status_command ''playsound_alias_1''], sleeps = 0\<rparr>,
           playsoundWin_init 1)
   \<and> playsoundWin_pause mci_two_polls
       \<lparr>sent = [status_command ''playsound_alias_1''], sleeps = 0\<rparr> (playsoundWin_init 1) =
     (Inr (),
      \<lparr>sent = [status_command ''playsound_alias_1'', pause_command ''playsound_alias_1''],
       sleeps = 0\<rparr>,
      (playsoundWin_init 1)\<lparr>pause_sound := True\<rparr>)"
  by (simp add: playsoundWin_resume_def playsoundWin_pause_def pause_audio_def get_status_eq
      winCommand_eq playsoundWin_init_def str_int_1 mci_two_polls_def stub_texts Let_def
      decode_def utf8_lead_def)

section \<open>The Pipeline backend\<close>

text \<open>
  Claim C5. \<open>play\<close> of the Pipeline backend with \<open>block=False\<close> raises
  \<open>NotImplementedError\<close> and makes no native call: the list of native calls is
  returned as it was.
\<close>

theorem nix_play_nonblocking:
  "playsoundNix_play env w sound False =
     Some (Inl (NotImplementedError ''block=False cannot be used on this platform yet''), w)"
  by (simp add: playsoundNix_play_def)

text \<open>
  Claim C6. When the request for the state \<open>PLAYING\<close> returns anything but \<open>ASYNC\<close>,
  \<open>play\<close> raises a \<open>PlaysoundException\<close> whose message carries the \<open>repr\<close> of the
  returned value, and the native calls it has made end with that request: the bus is
  neither fetched nor polled.
\<close>

theorem nix_play_state_change:
  assumes "block" and "element_made env" and "set_state_result env PLAYING \<noteq> ASYNC"
  shows "\<exists>uri. playsoundNix_play env w sound block =
           Some (Inl (PlaysoundException (''playbin.set_state returned ''
                    @ repr_result env (set_state_result env PLAYING))),
                 w @ [Gst_init, ElementFactory_make ''playbin'' ''playbin'', Set_uri uri,
                      Set_state PLAYING])"
  using assms by (simp add: playsoundNix_play_def Let_def)

theorem nix_play_state_change_witness:
  "element_made gst_failing \<and> set_state_result gst_failing PLAYING \<noteq> ASYNC \<and>
   (\<exists>uri. playsoundNix_play gst_failing [] ''song.mp3'' True =
      Some (Inl (PlaysoundException (''playbin.set_state returned ''
               @ ''<enum GST_STATE_CHANGE_FAILURE of type Gst.StateChangeReturn>'')),
            [Gst_init, ElementFactory_make ''playbin'' ''playbin'', Set_uri uri,
             Set_state PLAYING]))"
proof -
  have a: "element_made gst_failing" by (simp add: gst_failing_def)
  have b: "set_state_result gst_failing PLAYING \<noteq> ASYNC" by (simp add: gst_failing_def)
  have r: "repr_result gst_failing (set_state_result gst_failing PLAYING) =
      ''<enum GST_STATE_CHANGE_FAILURE of type Gst.StateChangeReturn>''"
    by (simp add: gst_failing_def)
  from nix_play_state_change [OF TrueI a b, of "[]" "''song.mp3''"] a b
  show ?thesis unfolding r by simp
qed

text \<open>
  Claim C10. The class \<open>playsoundNix\<close> defines only \<open>play\<close> and \<open>stop\<close>, so \<open>pause\<close>
  and \<open>resume\<close> stay abstract; the backend selected on Linux is this class, and creating
  an instance of it fails with a \<open>TypeError\<close>.
\<close>

theorem nix_cannot_be_instantiated:
  "playsound ''Linux'' = Some playsoundNix \<and>
   abstractmethods playsoundNix = [''pause'', ''resume''] \<and>
   instantiate playsoundNix =
     Inl (TypeError (''Can'' @ [CHR 0x27] @ ''t instantiate abstract class playsoundNix''
            @ '' with abstract methods pause, resume''))"
  by (simp add: playsound_def abstractmethods_def declared_abstract_def instantiate_def
      sorted_names_def)

end
